theory Spec2Isabelle
  imports Complex_Main "HOL-Library.AList"
begin

section \<open>Ride dispatch server: fare calculator and distance\<close>

text \<open>
  The server is a Node.js program. Its numbers are IEEE-754 doubles; they are modelled
  here as real numbers, so rounding error, overflow, NaN and the infinities are outside
  the model. \<^verbatim>\<open>Math.PI\<close> is \<open>pi\<close>, \<^verbatim>\<open>Math.sin\<close>, \<^verbatim>\<open>Math.cos\<close> and
  \<^verbatim>\<open>Math.sqrt\<close> are the real functions. The values of the calculator in doubles
  differ from the values here by rounding, so no general property of those values is
  stated below: the properties of the handlers take the distance and the fare as they
  come, and the scenarios evaluate them only where the distance is 0 (fare 50, 0, 0,
  10, 60, exact in doubles too) or half the circumference.
\<close>

subsection \<open>Math.round and Math.atan2\<close>

text \<open>
  \<^verbatim>\<open>Math.round(x)\<close> is the integer closest to \<open>x\<close>, a tie going to the larger one.
\<close>

definition Math_round :: "real \<Rightarrow> real" where
  "Math_round x = of_int \<lfloor>x + 1 / 2\<rfloor>"

text \<open>
  \<^verbatim>\<open>Math.atan2(y, x)\<close>: the angle of the point \<open>(x, y)\<close>, in \<open>(-pi, pi]\<close>, and \<open>0\<close>
  at the origin.
\<close>

definition Math_atan2 :: "real \<Rightarrow> real \<Rightarrow> real" where
  "Math_atan2 y x =
     (if 0 < x then arctan (y / x)
      else if x < 0 \<and> 0 \<le> y then arctan (y / x) + pi
      else if x < 0 then arctan (y / x) - pi
      else if 0 < y then pi / 2
      else if y < 0 then - (pi / 2)
      else 0)"

subsection \<open>calculateFare\<close>

record fare =
  base :: real
  distance :: real
  time :: real
  commission :: real
  total :: real

definition BASE_FARE :: real where "BASE_FARE = 50"
definition KM_RATE :: real where "KM_RATE = 10"
definition TIME_RATE :: real where "TIME_RATE = 2"
definition COMMISSION_RATE :: real where "COMMISSION_RATE = 2 / 10"

definition calculateFare :: "real \<Rightarrow> real \<Rightarrow> fare" where
  "calculateFare distanceKm durationMin =
     (let distanceCharge = distanceKm * KM_RATE;
          timeCharge = durationMin * TIME_RATE;
          subtotal = BASE_FARE + distanceCharge + timeCharge;
          commission = subtotal * COMMISSION_RATE;
          total = subtotal + commission
      in \<lparr>base = BASE_FARE, distance = distanceCharge, time = timeCharge,
          commission = commission, total = Math_round total\<rparr>)"

subsection \<open>getDistance and getRouteDistance\<close>

text \<open>The haversine term \<open>a\<close> of \<^verbatim>\<open>getDistance\<close>.\<close>

definition haversine_a :: "real \<Rightarrow> real \<Rightarrow> real \<Rightarrow> real \<Rightarrow> real" where
  "haversine_a lat1 lon1 lat2 lon2 =
     (let dLat = (lat2 - lat1) * pi / 180;
          dLon = (lon2 - lon1) * pi / 180
      in sin (dLat / 2) * sin (dLat / 2) +
         cos (lat1 * pi / 180) * cos (lat2 * pi / 180) *
         sin (dLon / 2) * sin (dLon / 2))"

definition getDistance :: "real \<Rightarrow> real \<Rightarrow> real \<Rightarrow> real \<Rightarrow> real" where
  "getDistance lat1 lon1 lat2 lon2 =
     (let R = 6371;
          a = haversine_a lat1 lon1 lat2 lon2;
          c = 2 * Math_atan2 (sqrt a) (sqrt (1 - a))
      in R * c)"

record coord =
  lat :: real
  lng :: real

text \<open>
  \<^verbatim>\<open>getRouteDistance\<close> returns the pair \<^verbatim>\<open>{ distance, duration }\<close>. It is declared
  \<^verbatim>\<open>async\<close> but awaits nothing: its result depends on its arguments only.
\<close>

definition getRouteDistance :: "coord \<Rightarrow> coord \<Rightarrow> real \<times> real" where
  "getRouteDistance pickup dropoff =
     (let distance = getDistance (lat pickup) (lng pickup) (lat dropoff) (lng dropoff);
          duration = distance * 2
      in (distance, duration))"

section \<open>Ride dispatch server: the socket handlers\<close>

subsection \<open>Data\<close>

text \<open>
  A connection: \<^verbatim>\<open>socket.id\<close> and \<^verbatim>\<open>socket.user.id\<close> (the identity the
  authentication middleware attached to the socket).
\<close>

record socket =
  socket_id :: string
  user_id :: string

text \<open>A value of \<^verbatim>\<open>activeDrivers\<close>: the object \<^verbatim>\<open>{ driverId, lat, lng }\<close>.\<close>

record driver = coord +
  driverId :: string

text \<open>
  A value of \<^verbatim>\<open>rideRequests\<close>. The fields \<^verbatim>\<open>distance\<close> and \<^verbatim>\<open>duration\<close> of the
  source are named \<open>route_distance\<close> and \<open>route_duration\<close> here, \<open>distance\<close> being a
  field of the fare already.
\<close>

record request =
  passengerId :: string
  pickup :: coord
  dropoff :: coord
  fare :: fare
  route_distance :: real
  route_duration :: real

text \<open>The row handed to \<^verbatim>\<open>supabase.from('rides').insert\<close>.\<close>

datatype ride =
  Ride (passenger_id: string) (driver_id: string) (ride_pickup: coord)
    (ride_dropoff: coord) (ride_fare: fare) (status: string)

text \<open>
  What the insert resolves to, \<^verbatim>\<open>{ data, error }\<close>: \<open>error\<close> is \<open>None\<close> for
  \<^verbatim>\<open>null\<close>; \<open>data\<close> is \<open>None\<close> for \<^verbatim>\<open>null\<close> and otherwise the returned rows, each
  row given by its \<^verbatim>\<open>id\<close>.
\<close>

record response =
  data :: "nat list option"
  error :: "string option"

text \<open>
  The events the server emits. \<^verbatim>\<open>io.to(x).emit\<close> addresses the room \<open>x\<close>,
  \<^verbatim>\<open>socket.emit\<close> the socket itself. The server never calls \<^verbatim>\<open>join\<close>, so the only
  room a socket is in is the one named by its own id.
\<close>

datatype payload =
  New_ride_request string coord coord fare
| Request_sent string fare
| Ride_accepted string coord
| Ride_started nat

datatype target = To_room string | To_socket string

fun delivered :: "string \<Rightarrow> target \<Rightarrow> bool" where
  "delivered sid (To_room r) = (r = sid)"
| "delivered sid (To_socket k) = (k = sid)"

text \<open>
  The variables the \<^verbatim>\<open>.then\<close> callback of \<^verbatim>\<open>accept-ride\<close> closes over: the socket,
  \<^verbatim>\<open>requestId\<close>, \<^verbatim>\<open>request\<close> and \<^verbatim>\<open>driver\<close>.
\<close>

record callback =
  cb_socket :: socket
  cb_requestId :: string
  cb_request :: request
  cb_driver :: driver

subsection \<open>State and primitive effects\<close>

text \<open>
  The two module-level \<^verbatim>\<open>Map\<close>s are association lists in insertion order, as a
  JavaScript \<^verbatim>\<open>Map\<close> iterates: \<^verbatim>\<open>set\<close> on a present key replaces the value in place
  and on a fresh key appends (\<open>AList.update\<close>), \<^verbatim>\<open>delete\<close> removes the key
  (\<open>AList.delete\<close>), \<^verbatim>\<open>get\<close> is \<open>map_of\<close>. \<open>inserted\<close> are the rows handed to the
  database so far, \<open>pending\<close> the inserts that have not resolved yet, \<open>outbox\<close> every
  message emitted so far, oldest first.
\<close>

record server =
  activeDrivers :: "(string \<times> driver) list"
  rideRequests :: "(string \<times> request) list"
  inserted :: "ride list"
  pending :: "callback list"
  outbox :: "(target \<times> payload) list"

definition init :: server where
  "init = \<lparr>activeDrivers = [], rideRequests = [], inserted = [], pending = [], outbox = []\<rparr>"

text \<open>
  The effects of a handler, in program order. \<open>Throw\<close> is an uncaught
  \<^verbatim>\<open>TypeError\<close>: the rest of the handler does not run.
\<close>

datatype action =
  Drivers_set string driver
| Drivers_delete string
| Requests_set string request
| Requests_delete string
| Emit target payload
| Insert ride callback
| Throw

fun perform :: "action \<Rightarrow> server \<Rightarrow> server" where
  "perform (Drivers_set k v) s = s\<lparr>activeDrivers := AList.update k v (activeDrivers s)\<rparr>"
| "perform (Drivers_delete k) s = s\<lparr>activeDrivers := AList.delete k (activeDrivers s)\<rparr>"
| "perform (Requests_set k v) s = s\<lparr>rideRequests := AList.update k v (rideRequests s)\<rparr>"
| "perform (Requests_delete k) s = s\<lparr>rideRequests := AList.delete k (rideRequests s)\<rparr>"
| "perform (Emit t p) s = s\<lparr>outbox := outbox s @ [(t, p)]\<rparr>"
| "perform (Insert r cb) s = s\<lparr>inserted := inserted s @ [r], pending := pending s @ [cb]\<rparr>"
| "perform Throw s = s"

fun run :: "action list \<Rightarrow> server \<Rightarrow> server" where
  "run [] s = s"
| "run (Throw # as) s = s"
| "run (a # as) s = run as (perform a s)"

text \<open>The messages a list of effects emits.\<close>

fun emits :: "action list \<Rightarrow> (target \<times> payload) list" where
  "emits [] = []"
| "emits (Throw # as) = []"
| "emits (Emit t p # as) = (t, p) # emits as"
| "emits (a # as) = emits as"

subsection \<open>The handlers\<close>

text \<open>\<^verbatim>\<open>socket.on('driver-location', ({ lat, lng }) => ...)\<close>\<close>

definition on_driver_location :: "socket \<Rightarrow> real \<Rightarrow> real \<Rightarrow> action list" where
  "on_driver_location sock la lo =
     [Drivers_set (socket_id sock) \<lparr>lat = la, lng = lo, driverId = user_id sock\<rparr>]"

text \<open>
  \<^verbatim>\<open>socket.on('request-ride', async ({ pickup, dropoff }) => ...)\<close>. Before its only
  \<^verbatim>\<open>await\<close> the handler touches no state, so the whole handler is one step, taken
  when it resumes; the parameters \<^verbatim>\<open>pickup\<close> and \<^verbatim>\<open>dropoff\<close> are primed here,
  the plain names being fields of the request. \<open>requestId\<close> is the string that
  \<^verbatim>\<open>Math.random().toString(36).substr(2, 9)\<close> produced: the random draw is an input
  of the step. The \<^verbatim>\<open>forEach\<close> reads \<^verbatim>\<open>activeDrivers\<close>, which the preceding
  \<^verbatim>\<open>rideRequests.set\<close> does not change.
\<close>

definition nearby :: "coord \<Rightarrow> string \<times> driver \<Rightarrow> bool" where
  "nearby pickup' e =
     (let driver = snd e;
          distanceToPickup = getDistance (lat driver) (lng driver) (lat pickup') (lng pickup')
      in distanceToPickup < 5)"

definition on_request_ride ::
  "socket \<Rightarrow> coord \<Rightarrow> coord \<Rightarrow> string \<Rightarrow> server \<Rightarrow> action list" where
  "on_request_ride sock pickup' dropoff' requestId s =
     (let (distance, duration) = getRouteDistance pickup' dropoff';
          fare = calculateFare distance duration
      in Requests_set requestId
           \<lparr>passengerId = user_id sock, pickup = pickup', dropoff = dropoff', fare = fare,
            route_distance = distance, route_duration = duration\<rparr> #
         map (\<lambda>e. Emit (To_room (fst e)) (New_ride_request requestId pickup' dropoff' fare))
           (filter (nearby pickup') (activeDrivers s)) @
         [Emit (To_socket (socket_id sock)) (Request_sent requestId fare)])"

text \<open>
  \<^verbatim>\<open>socket.on('accept-ride', ({ requestId }) => ...)\<close>, up to the call of
  \<^verbatim>\<open>insert\<close>; the \<^verbatim>\<open>.then\<close> callback runs in a later step.
\<close>

definition on_accept_ride :: "socket \<Rightarrow> string \<Rightarrow> server \<Rightarrow> action list" where
  "on_accept_ride sock requestId s =
     (case map_of (rideRequests s) requestId of
        None \<Rightarrow> []
      | Some request \<Rightarrow>
          (case map_of (activeDrivers s) (socket_id sock) of
             None \<Rightarrow> []
           | Some driver \<Rightarrow>
               [Insert
                  (Ride (passengerId request) (driverId driver) (pickup request)
                     (dropoff request) (fare request) ''accepted'')
                  \<lparr>cb_socket = sock, cb_requestId = requestId, cb_request = request,
                   cb_driver = driver\<rparr>]))"

text \<open>
  The \<^verbatim>\<open>.then(({ data, error }) => ...)\<close> callback. \<^verbatim>\<open>data[0].id\<close> throws a
  \<^verbatim>\<open>TypeError\<close> when \<^verbatim>\<open>data\<close> is \<^verbatim>\<open>null\<close> or empty; it is evaluated before
  \<^verbatim>\<open>'ride-started'\<close> is emitted.
\<close>

definition then_callback :: "callback \<Rightarrow> response \<Rightarrow> action list" where
  "then_callback cb resp =
     (if error resp \<noteq> None then []
      else
        Emit (To_room (passengerId (cb_request cb)))
          (Ride_accepted (driverId (cb_driver cb))
             \<lparr>lat = lat (cb_driver cb), lng = lng (cb_driver cb)\<rparr>) #
        (case data resp of
           None \<Rightarrow> [Throw]
         | Some [] \<Rightarrow> [Throw]
         | Some (row # rows) \<Rightarrow>
             [Emit (To_socket (socket_id (cb_socket cb))) (Ride_started row),
              Requests_delete (cb_requestId cb)]))"

text \<open>\<^verbatim>\<open>socket.on('disconnect', () => ...)\<close>\<close>

definition on_disconnect :: "socket \<Rightarrow> action list" where
  "on_disconnect sock = [Drivers_delete (socket_id sock)]"

subsection \<open>The event loop\<close>

text \<open>
  Node.js runs one handler at a time, to completion. An event is a socket event or the
  resolution of a pending insert: \<open>Insert_done i resp\<close> resolves the \<open>i\<close>-th pending
  insert with \<open>resp\<close>. Inserts may resolve in any order.
\<close>

datatype event =
  Driver_location socket real real
| Request_ride socket coord coord string
| Accept_ride socket string
| Insert_done nat response
| Disconnect socket

fun step :: "event \<Rightarrow> server \<Rightarrow> server" where
  "step (Driver_location sock la lo) s = run (on_driver_location sock la lo) s"
| "step (Request_ride sock pickup' dropoff' requestId) s =
     run (on_request_ride sock pickup' dropoff' requestId s) s"
| "step (Accept_ride sock requestId) s = run (on_accept_ride sock requestId s) s"
| "step (Insert_done i resp) s =
     (if i < length (pending s)
      then run (then_callback (pending s ! i) resp)
             (s\<lparr>pending := take i (pending s) @ drop (Suc i) (pending s)\<rparr>)
      else s)"
| "step (Disconnect sock) s = run (on_disconnect sock) s"

definition exec :: "event list \<Rightarrow> server \<Rightarrow> server" where
  "exec evs s = foldl (\<lambda>s ev. step ev s) s evs"

subsection \<open>Notions the properties are stated with\<close>

text \<open>
  The fare and the request object that \<^verbatim>\<open>request-ride\<close> builds from a pickup and a
  dropoff.
\<close>

definition quoted_fare :: "coord \<Rightarrow> coord \<Rightarrow> fare" where
  "quoted_fare pickup' dropoff' =
     (let (distance, duration) = getRouteDistance pickup' dropoff'
      in calculateFare distance duration)"

definition new_request :: "socket \<Rightarrow> coord \<Rightarrow> coord \<Rightarrow> request" where
  "new_request sock pickup' dropoff' =
     (let (distance, duration) = getRouteDistance pickup' dropoff'
      in \<lparr>passengerId = user_id sock, pickup = pickup', dropoff = dropoff',
          fare = calculateFare distance duration,
          route_distance = distance, route_duration = duration\<rparr>)"

fun is_emit :: "action \<Rightarrow> bool" where
  "is_emit (Emit t p) = True"
| "is_emit a = False"

fun is_new_ride_request :: "payload \<Rightarrow> bool" where
  "is_new_ride_request (New_ride_request r a b f) = True"
| "is_new_ride_request p = False"

subsection \<open>A concrete scenario\<close>

text \<open>
  Two drivers and two passengers, all at the origin, and the states of one ride
  request: \<open>waiting\<close> after it was broadcast, \<open>racing\<close> after both drivers accepted
  it and neither insert has resolved, \<open>settled\<close> after the first insert resolved.
\<close>

definition driverA :: socket where
  "driverA = \<lparr>socket_id = ''sockA'', user_id = ''userA''\<rparr>"

definition driverB :: socket where
  "driverB = \<lparr>socket_id = ''sockB'', user_id = ''userB''\<rparr>"

definition rider :: socket where
  "rider = \<lparr>socket_id = ''sockP'', user_id = ''userP''\<rparr>"

definition rider2 :: socket where
  "rider2 = \<lparr>socket_id = ''sockQ'', user_id = ''userQ''\<rparr>"

definition origin :: coord where
  "origin = \<lparr>lat = 0, lng = 0\<rparr>"

definition fare0 :: fare where
  "fare0 = \<lparr>base = 50, distance = 0, time = 0, commission = 10, total = 60\<rparr>"

text \<open>An insert that resolves without error and returns one row, with the given id.\<close>

definition ok :: "nat \<Rightarrow> response" where
  "ok n = \<lparr>data = Some [n], error = None\<rparr>"

text \<open>An insert that resolves without error and without rows (\<^verbatim>\<open>data\<close> is \<^verbatim>\<open>null\<close>).\<close>

definition no_rows :: response where
  "no_rows = \<lparr>data = None, error = None\<rparr>"

definition waiting :: server where
  "waiting =
     exec [Driver_location driverA 0 0, Driver_location driverB 0 0,
           Request_ride rider origin origin ''4fzyo82mv''] init"

definition racing :: server where
  "racing = exec [Accept_ride driverA ''4fzyo82mv'', Accept_ride driverB ''4fzyo82mv''] waiting"

definition settled :: server where
  "settled = step (Insert_done 0 (ok 1)) racing"

text \<open>The two callbacks pending in \<open>racing\<close>.\<close>

definition claimA :: callback where
  "claimA =
     \<lparr>cb_socket = driverA, cb_requestId = ''4fzyo82mv'',
      cb_request = new_request rider origin origin,
      cb_driver = \<lparr>lat = 0, lng = 0, driverId = ''userA''\<rparr>\<rparr>"

definition claimB :: callback where
  "claimB =
     \<lparr>cb_socket = driverB, cb_requestId = ''4fzyo82mv'',
      cb_request = new_request rider origin origin,
      cb_driver = \<lparr>lat = 0, lng = 0, driverId = ''userB''\<rparr>\<rparr>"

text \<open>
  A second scenario, for the radius: driver A at the south pole, driver B at the north
  pole, half the circumference away.
\<close>

definition south :: coord where
  "south = \<lparr>lat = - 90, lng = 0\<rparr>"

definition polar :: server where
  "polar = exec [Driver_location driverA (- 90) 0, Driver_location driverB 90 0] init"

section \<open>The distance at the scenarios' points\<close>

text \<open>
  Between a point and itself every term of \<^verbatim>\<open>getDistance\<close> is 0: the differences
  are 0, so are the sines, the haversine term and the angle.
\<close>

lemma getDistance_same: "getDistance lat1 lon1 lat1 lon1 = 0"
  by (simp add: getDistance_def haversine_a_def Math_atan2_def)

section \<open>Properties of the socket handlers\<close>

subsection \<open>Effects\<close>

lemma outbox_run: "outbox (run as s) = outbox s @ emits as"
  by (induction as s rule: run.induct) simp_all

lemma rideRequests_run_emits:
  "list_all is_emit as \<Longrightarrow> rideRequests (run as s) = rideRequests s"
  by (induction as s rule: run.induct) simp_all

lemma emits_map_Emit:
  "emits (map (\<lambda>e. Emit (f e) (g e)) xs @ as) = map (\<lambda>e. (f e, g e)) xs @ emits as"
  by (induction xs) simp_all

lemma exec_snoc: "exec (evs @ [ev]) s = step ev (exec evs s)"
  by (simp add: exec_def)

lemma on_request_ride_eq:
  "on_request_ride sock pickup' dropoff' requestId s =
     Requests_set requestId (new_request sock pickup' dropoff') #
     map (\<lambda>e. Emit (To_room (fst e))
            (New_ride_request requestId pickup' dropoff' (quoted_fare pickup' dropoff')))
       (filter (nearby pickup') (activeDrivers s)) @
     [Emit (To_socket (socket_id sock)) (Request_sent requestId (quoted_fare pickup' dropoff'))]"
  by (simp add: on_request_ride_def new_request_def quoted_fare_def Let_def split_beta)

lemma emits_on_request_ride:
  "emits (on_request_ride sock pickup' dropoff' requestId s) =
     map (\<lambda>e. (To_room (fst e),
            New_ride_request requestId pickup' dropoff' (quoted_fare pickup' dropoff')))
       (filter (nearby pickup') (activeDrivers s)) @
     [(To_socket (socket_id sock), Request_sent requestId (quoted_fare pickup' dropoff'))]"
  by (simp add: on_request_ride_eq emits_map_Emit)

lemma then_callback_ok:
  assumes "error resp = None" "data resp = Some (row # rows)"
  shows "then_callback cb resp =
     [Emit (To_room (passengerId (cb_request cb)))
        (Ride_accepted (driverId (cb_driver cb))
           \<lparr>lat = lat (cb_driver cb), lng = lng (cb_driver cb)\<rparr>),
      Emit (To_socket (socket_id (cb_socket cb))) (Ride_started row),
      Requests_delete (cb_requestId cb)]"
  using assms by (simp add: then_callback_def)

subsection \<open>The scenarios, evaluated\<close>

lemma quoted_fare_origin:
  "quoted_fare \<lparr>lat = 0, lng = 0\<rparr> \<lparr>lat = 0, lng = 0\<rparr> = fare0"
  by (simp add: quoted_fare_def getRouteDistance_def getDistance_same calculateFare_def
      BASE_FARE_def KM_RATE_def TIME_RATE_def COMMISSION_RATE_def Math_round_def fare0_def)

lemma new_request_origin:
  "new_request sock \<lparr>lat = 0, lng = 0\<rparr> \<lparr>lat = 0, lng = 0\<rparr> =
     \<lparr>passengerId = user_id sock, pickup = \<lparr>lat = 0, lng = 0\<rparr>,
      dropoff = \<lparr>lat = 0, lng = 0\<rparr>, fare = fare0,
      route_distance = 0, route_duration = 0\<rparr>"
  by (simp add: new_request_def getRouteDistance_def getDistance_same calculateFare_def
      BASE_FARE_def KM_RATE_def TIME_RATE_def COMMISSION_RATE_def Math_round_def fare0_def)

lemma nearby_origin:
  "nearby \<lparr>lat = 0, lng = 0\<rparr> (k, \<lparr>lat = 0, lng = 0, driverId = u\<rparr>)"
  by (simp add: nearby_def getDistance_same)

lemma waiting_eq:
  "waiting =
     \<lparr>activeDrivers =
        [(''sockA'', \<lparr>lat = 0, lng = 0, driverId = ''userA''\<rparr>),
         (''sockB'', \<lparr>lat = 0, lng = 0, driverId = ''userB''\<rparr>)],
      rideRequests = [(''4fzyo82mv'', new_request rider origin origin)],
      inserted = [], pending = [],
      outbox =
        [(To_room ''sockA'', New_ride_request ''4fzyo82mv'' origin origin fare0),
         (To_room ''sockB'', New_ride_request ''4fzyo82mv'' origin origin fare0),
         (To_socket ''sockP'', Request_sent ''4fzyo82mv'' fare0)]\<rparr>"
  by (simp add: waiting_def exec_def init_def on_driver_location_def on_request_ride_eq
      nearby_origin quoted_fare_origin driverA_def driverB_def rider_def origin_def)

lemma racing_eq:
  "racing = waiting
     \<lparr>inserted :=
        [Ride ''userP'' ''userA'' origin origin fare0 ''accepted'',
         Ride ''userP'' ''userB'' origin origin fare0 ''accepted''],
      pending := [claimA, claimB]\<rparr>"
  by (simp add: racing_def exec_def waiting_eq on_accept_ride_def new_request_origin
      driverA_def driverB_def rider_def claimA_def claimB_def origin_def)

lemma settled_eq:
  "settled = racing
     \<lparr>rideRequests := [], pending := [claimB],
      outbox := outbox waiting @
        [(To_room ''userP'', Ride_accepted ''userA'' origin),
         (To_socket ''sockA'', Ride_started 1)]\<rparr>"
  by (simp add: settled_def racing_eq waiting_eq then_callback_def ok_def claimA_def
      claimB_def new_request_origin driverA_def rider_def origin_def)

lemma getDistance_poles: "getDistance 90 0 (- 90) 0 = 6371 * pi"
  by (simp add: getDistance_def haversine_a_def Math_atan2_def)

lemma polar_eq:
  "activeDrivers polar =
     [(''sockA'', \<lparr>lat = - 90, lng = 0, driverId = ''userA''\<rparr>),
      (''sockB'', \<lparr>lat = 90, lng = 0, driverId = ''userB''\<rparr>)]"
  by (simp add: polar_def exec_def init_def on_driver_location_def driverA_def driverB_def)

subsection \<open>request-ride: the request is stored first\<close>

text \<open>
  C10. In the \<^verbatim>\<open>request-ride\<close> handler the first effect is the store of the new
  request under its id. Whenever the handler emits a message, a
  \<^verbatim>\<open>new-ride-request\<close> to a driver or the \<^verbatim>\<open>request-sent\<close> to the passenger, the
  ledger at that moment (the state after the effects before the emission) holds the
  request under that id, and so it does when the handler has finished.
\<close>

theorem request_stored_before_notified:
  assumes "k < length (on_request_ride sock pickup' dropoff' requestId s)"
    and "on_request_ride sock pickup' dropoff' requestId s ! k = Emit t p"
  shows
    "on_request_ride sock pickup' dropoff' requestId s ! 0 =
       Requests_set requestId (new_request sock pickup' dropoff') \<and>
     map_of (rideRequests (run (take k (on_request_ride sock pickup' dropoff' requestId s)) s))
       requestId = Some (new_request sock pickup' dropoff') \<and>
     map_of (rideRequests (step (Request_ride sock pickup' dropoff' requestId) s)) requestId =
       Some (new_request sock pickup' dropoff')"
proof -
  define es where "es =
     map (\<lambda>e. Emit (To_room (fst e))
            (New_ride_request requestId pickup' dropoff' (quoted_fare pickup' dropoff')))
       (filter (nearby pickup') (activeDrivers s)) @
     [Emit (To_socket (socket_id sock)) (Request_sent requestId (quoted_fare pickup' dropoff'))]"
  have as: "on_request_ride sock pickup' dropoff' requestId s =
      Requests_set requestId (new_request sock pickup' dropoff') # es"
    by (simp add: on_request_ride_eq es_def)
  have es: "list_all is_emit es"
    by (simp add: es_def list_all_iff)
  from assms(2) obtain j where k: "k = Suc j"
    unfolding as by (cases k) simp_all
  have "list_all is_emit (take j es)"
    using es by (auto simp: list_all_iff dest: in_set_takeD)
  then have 1: "rideRequests (run (take k (Requests_set requestId (new_request sock pickup' dropoff') # es)) s) =
      AList.update requestId (new_request sock pickup' dropoff') (rideRequests s)"
    unfolding k by (simp add: rideRequests_run_emits)
  have 2: "rideRequests (step (Request_ride sock pickup' dropoff' requestId) s) =
      AList.update requestId (new_request sock pickup' dropoff') (rideRequests s)"
    using es by (simp add: as rideRequests_run_emits)
  show ?thesis
    unfolding as 1 using 2 unfolding as by (simp add: update_conv')
qed

text \<open>
  In the polar scenario a request at the south pole: the store, then the one
  notification, to driver A.
\<close>

lemma poles_apart: "\<not> 6371 * pi < 5"
  using pi_ge_two by linarith

lemma nearby_south_polar:
  "filter (nearby south) (activeDrivers polar) =
     [(''sockA'', \<lparr>lat = - 90, lng = 0, driverId = ''userA''\<rparr>)]"
  by (simp add: polar_eq nearby_def south_def getDistance_same getDistance_poles poles_apart)

theorem request_stored_before_notified_witness:
  "map_of (rideRequests (run (take 1 (on_request_ride rider south south ''4fzyo82mv'' polar)) polar))
     ''4fzyo82mv'' = Some (new_request rider south south) \<and>
   on_request_ride rider south south ''4fzyo82mv'' polar ! 1 =
     Emit (To_room ''sockA'') (New_ride_request ''4fzyo82mv'' south south (quoted_fare south south))"
proof -
  note n = nearby_south_polar
  have l: "1 < length (on_request_ride rider south south ''4fzyo82mv'' polar)"
    by (simp add: on_request_ride_eq n)
  have e: "on_request_ride rider south south ''4fzyo82mv'' polar ! 1 =
     Emit (To_room ''sockA'') (New_ride_request ''4fzyo82mv'' south south (quoted_fare south south))"
    by (simp add: on_request_ride_eq n)
  from request_stored_before_notified[OF l e] e show ?thesis by blast
qed

subsection \<open>request-ride: who is notified\<close>

lemma outbox_driver_location: "outbox (step (Driver_location sock la lo) s) = outbox s"
  by (simp add: on_driver_location_def)

text \<open>
  C4. The messages a \<^verbatim>\<open>request-ride\<close> step adds to the outbox are those of its handler.
  A connection \<open>sid\<close> is sent a \<^verbatim>\<open>new-ride-request\<close> by that step exactly when
  \<^verbatim>\<open>activeDrivers\<close> holds, at that step, an entry for \<open>sid\<close> whose position is less than
  5 km from the pickup. Every such message carries the request id, the pickup, the
  dropoff and the fare. A later \<^verbatim>\<open>driver-location\<close> leaves the outbox as it is: what
  was sent is not revised.
\<close>

theorem broadcast_exactly_nearby:
  "outbox (step (Request_ride sock pickup' dropoff' requestId) s) =
     outbox s @ emits (on_request_ride sock pickup' dropoff' requestId s) \<and>
   ((\<exists>t p. (t, p) \<in> set (emits (on_request_ride sock pickup' dropoff' requestId s)) \<and>
       delivered sid t \<and> is_new_ride_request p) =
    (\<exists>d. (sid, d) \<in> set (activeDrivers s) \<and>
       getDistance (lat d) (lng d) (lat pickup') (lng pickup') < 5)) \<and>
   (\<forall>t p. (t, p) \<in> set (emits (on_request_ride sock pickup' dropoff' requestId s)) \<and>
       is_new_ride_request p \<longrightarrow>
       p = New_ride_request requestId pickup' dropoff' (quoted_fare pickup' dropoff')) \<and>
   outbox (step (Driver_location sock' la lo) s') = outbox s'"
proof (intro conjI)
  show "outbox (step (Request_ride sock pickup' dropoff' requestId) s) =
     outbox s @ emits (on_request_ride sock pickup' dropoff' requestId s)"
    by (simp add: outbox_run)
  show "(\<exists>t p. (t, p) \<in> set (emits (on_request_ride sock pickup' dropoff' requestId s)) \<and>
       delivered sid t \<and> is_new_ride_request p) =
    (\<exists>d. (sid, d) \<in> set (activeDrivers s) \<and>
       getDistance (lat d) (lng d) (lat pickup') (lng pickup') < 5)"
  proof
    assume "\<exists>t p. (t, p) \<in> set (emits (on_request_ride sock pickup' dropoff' requestId s)) \<and>
       delivered sid t \<and> is_new_ride_request p"
    then show "\<exists>d. (sid, d) \<in> set (activeDrivers s) \<and>
       getDistance (lat d) (lng d) (lat pickup') (lng pickup') < 5"
      unfolding emits_on_request_ride by (auto simp: nearby_def Let_def)
  next
    assume "\<exists>d. (sid, d) \<in> set (activeDrivers s) \<and>
       getDistance (lat d) (lng d) (lat pickup') (lng pickup') < 5"
    then obtain d where d: "(sid, d) \<in> set (activeDrivers s)" "nearby pickup' (sid, d)"
      by (auto simp: nearby_def Let_def)
    then have "(To_room sid,
          New_ride_request requestId pickup' dropoff' (quoted_fare pickup' dropoff'))
        \<in> set (emits (on_request_ride sock pickup' dropoff' requestId s))"
      unfolding emits_on_request_ride by force
    then show "\<exists>t p. (t, p) \<in> set (emits (on_request_ride sock pickup' dropoff' requestId s)) \<and>
       delivered sid t \<and> is_new_ride_request p"
      by (intro exI[of _ "To_room sid"]
          exI[of _ "New_ride_request requestId pickup' dropoff' (quoted_fare pickup' dropoff')"])
        simp
  qed
  show "\<forall>t p. (t, p) \<in> set (emits (on_request_ride sock pickup' dropoff' requestId s)) \<and>
       is_new_ride_request p \<longrightarrow>
       p = New_ride_request requestId pickup' dropoff' (quoted_fare pickup' dropoff')"
    unfolding emits_on_request_ride by auto
  show "outbox (step (Driver_location sock' la lo) s') = outbox s'"
    by (rule outbox_driver_location)
qed

text \<open>
  In the polar scenario, for a pickup at the south pole, driver A is notified and
  driver B is not, also when B moves to the south pole right after.
\<close>

theorem broadcast_exactly_nearby_witness:
  "(\<exists>t p. (t, p) \<in> set (emits (on_request_ride rider south south ''4fzyo82mv'' polar)) \<and>
       delivered ''sockA'' t \<and> is_new_ride_request p) \<and>
   \<not> (\<exists>t p. (t, p) \<in> set (emits (on_request_ride rider south south ''4fzyo82mv'' polar)) \<and>
       delivered ''sockB'' t \<and> is_new_ride_request p) \<and>
   outbox (step (Driver_location driverB (- 90) 0)
       (step (Request_ride rider south south ''4fzyo82mv'') polar)) =
     outbox polar @ emits (on_request_ride rider south south ''4fzyo82mv'' polar)"
proof -
  note t = broadcast_exactly_nearby[of rider south south "''4fzyo82mv''" polar _ driverB "- 90" 0
      "step (Request_ride rider south south ''4fzyo82mv'') polar"]
  have a: "\<exists>d. (''sockA'', d) \<in> set (activeDrivers polar) \<and>
       getDistance (lat d) (lng d) (lat south) (lng south) < 5"
    by (simp add: polar_eq south_def getDistance_same)
  have b: "\<not> (\<exists>d. (''sockB'', d) \<in> set (activeDrivers polar) \<and>
       getDistance (lat d) (lng d) (lat south) (lng south) < 5)"
    by (simp add: polar_eq south_def getDistance_poles poles_apart)
  from a t[of "''sockA''"] have 1: "\<exists>t p. (t, p) \<in> set (emits (on_request_ride rider south south ''4fzyo82mv'' polar)) \<and>
       delivered ''sockA'' t \<and> is_new_ride_request p" by blast
  from b t[of "''sockB''"] have 2: "\<not> (\<exists>t p. (t, p) \<in> set (emits (on_request_ride rider south south ''4fzyo82mv'' polar)) \<and>
       delivered ''sockB'' t \<and> is_new_ride_request p)" by blast
  from t[of "''sockA''"] have 3: "outbox (step (Driver_location driverB (- 90) 0)
       (step (Request_ride rider south south ''4fzyo82mv'') polar)) =
     outbox polar @ emits (on_request_ride rider south south ''4fzyo82mv'' polar)"
    by metis
  from 1 2 3 show ?thesis by blast
qed

subsection \<open>accept-ride: the two early returns\<close>

text \<open>
  C9. An \<^verbatim>\<open>accept-ride\<close> from a connection with no entry in \<^verbatim>\<open>activeDrivers\<close> has no
  effect at all, whatever the request id: the handler performs nothing and the state
  after the step is the state before it (same ledger, no insert issued, no callback
  pending, nothing emitted).
\<close>

theorem accept_ride_unregistered_noop:
  "map_of (activeDrivers s) (socket_id sock) = None \<Longrightarrow>
   on_accept_ride sock requestId s = [] \<and> step (Accept_ride sock requestId) s = s"
  by (simp add: on_accept_ride_def split: option.splits)

text \<open>
  In \<open>waiting\<close> the passenger's own connection, which never reported a location,
  accepts the request that is waiting there.
\<close>

theorem accept_ride_unregistered_noop_witness:
  "map_of (activeDrivers waiting) (socket_id rider) = None \<and>
   map_of (rideRequests waiting) ''4fzyo82mv'' = Some (new_request rider origin origin) \<and>
   on_accept_ride rider ''4fzyo82mv'' waiting = [] \<and>
   step (Accept_ride rider ''4fzyo82mv'') waiting = waiting"
proof -
  have a: "map_of (activeDrivers waiting) (socket_id rider) = None"
    by (simp add: waiting_eq rider_def)
  have r: "map_of (rideRequests waiting) ''4fzyo82mv'' = Some (new_request rider origin origin)"
    by (simp add: waiting_eq)
  from accept_ride_unregistered_noop[OF a, of "''4fzyo82mv''"] a r show ?thesis by blast
qed

text \<open>
  C3, as amended. An \<^verbatim>\<open>accept-ride\<close> for a request id that is not in the ledger (never
  created, or removed by an earlier claim) is a silent no-op: the handler performs
  nothing, so no state changes, no connection is notified, and nothing is reported to
  the caller either.
\<close>

theorem accept_ride_unknown_noop:
  "map_of (rideRequests s) requestId = None \<Longrightarrow>
   on_accept_ride sock requestId s = [] \<and> step (Accept_ride sock requestId) s = s"
  by (simp add: on_accept_ride_def)

text \<open>In \<open>settled\<close> driver A has won the request; driver B accepts it now.\<close>

theorem accept_ride_unknown_noop_witness:
  "map_of (rideRequests settled) ''4fzyo82mv'' = None \<and>
   step (Accept_ride driverB ''4fzyo82mv'') settled = settled"
proof -
  have r: "map_of (rideRequests settled) ''4fzyo82mv'' = None"
    by (simp add: settled_eq)
  from accept_ride_unknown_noop[OF r, of driverB] r show ?thesis by blast
qed

text \<open>
  C3 as stated fails: the claim has the failure reported to the calling connection.
  Driver B's late accept in \<open>settled\<close> emits no message, to B or to anyone.
\<close>

theorem accept_ride_failure_unreported:
  "emits (on_accept_ride driverB ''4fzyo82mv'' settled) = [] \<and>
   outbox (step (Accept_ride driverB ''4fzyo82mv'') settled) = outbox settled"
  by (simp add: on_accept_ride_def settled_eq)

subsection \<open>accept-ride: notifications and removal\<close>

text \<open>
  C5, as amended. When the insert of an accepted request resolves without error and
  with at least one row, the callback emits \<^verbatim>\<open>ride-accepted\<close> to the passenger's
  room, then \<^verbatim>\<open>ride-started\<close> to the accepting socket, and only then removes the
  request from the ledger: at each of the two emissions the ledger is still what it
  was before the callback. All three effects belong to the one step of the event
  loop, after which both messages are in the outbox and the request is gone.
\<close>

theorem claim_notifies_then_removes:
  assumes "i < length (pending s)" and "error resp = None" and "data resp = Some (row # rows)"
  shows
    "outbox (step (Insert_done i resp) s) =
       outbox s @
       [(To_room (passengerId (cb_request (pending s ! i))),
         Ride_accepted (driverId (cb_driver (pending s ! i)))
           \<lparr>lat = lat (cb_driver (pending s ! i)), lng = lng (cb_driver (pending s ! i))\<rparr>),
        (To_socket (socket_id (cb_socket (pending s ! i))), Ride_started row)] \<and>
     rideRequests (step (Insert_done i resp) s) =
       AList.delete (cb_requestId (pending s ! i)) (rideRequests s) \<and>
     map_of (rideRequests (step (Insert_done i resp) s)) (cb_requestId (pending s ! i)) = None \<and>
     (\<forall>k t p. k < length (then_callback (pending s ! i) resp) \<and>
        then_callback (pending s ! i) resp ! k = Emit t p \<longrightarrow>
        rideRequests (run (take k (then_callback (pending s ! i) resp)) s) = rideRequests s)"
proof -
  let ?cb = "pending s ! i"
  note as = then_callback_ok[OF assms(2,3), of ?cb]
  have 1: "outbox (step (Insert_done i resp) s) =
       outbox s @
       [(To_room (passengerId (cb_request ?cb)),
         Ride_accepted (driverId (cb_driver ?cb))
           \<lparr>lat = lat (cb_driver ?cb), lng = lng (cb_driver ?cb)\<rparr>),
        (To_socket (socket_id (cb_socket ?cb)), Ride_started row)]"
    using assms(1) by (simp add: as)
  have 2: "rideRequests (step (Insert_done i resp) s) =
       AList.delete (cb_requestId ?cb) (rideRequests s)"
    using assms(1) by (simp add: as)
  have 3: "map_of (rideRequests (step (Insert_done i resp) s)) (cb_requestId ?cb) = None"
    unfolding 2 by (simp add: delete_conv')
  have 4: "rideRequests (run (take k (then_callback ?cb resp)) s) = rideRequests s"
    if "k < length (then_callback ?cb resp)" "then_callback ?cb resp ! k = Emit t p" for k t p
  proof -
    from that have "k = 0 \<or> k = 1"
      unfolding as by (cases k; simp; cases "k - 1"; simp)
    then show ?thesis unfolding as by auto
  qed
  from 1 2 3 4 show ?thesis by blast
qed

lemma claimA_fields:
  "passengerId (cb_request claimA) = ''userP''" "driverId (cb_driver claimA) = ''userA''"
  "\<lparr>lat = lat (cb_driver claimA), lng = lng (cb_driver claimA)\<rparr> = origin"
  "socket_id (cb_socket claimA) = ''sockA''" "cb_requestId claimA = ''4fzyo82mv''"
  by (simp_all add: claimA_def new_request_origin driverA_def rider_def origin_def)

lemma claimB_fields:
  "passengerId (cb_request claimB) = ''userP''" "driverId (cb_driver claimB) = ''userB''"
  "\<lparr>lat = lat (cb_driver claimB), lng = lng (cb_driver claimB)\<rparr> = origin"
  "socket_id (cb_socket claimB) = ''sockB''" "cb_requestId claimB = ''4fzyo82mv''"
  by (simp_all add: claimB_def new_request_origin driverB_def rider_def origin_def)

text \<open>In \<open>racing\<close>, the insert of driver A resolves with row 1.\<close>

theorem claim_notifies_then_removes_witness:
  "outbox (step (Insert_done 0 (ok 1)) racing) =
     outbox racing @
     [(To_room ''userP'', Ride_accepted ''userA'' origin), (To_socket ''sockA'', Ride_started 1)] \<and>
   map_of (rideRequests (step (Insert_done 0 (ok 1)) racing)) ''4fzyo82mv'' = None"
proof -
  have p: "pending racing ! 0 = claimA" by (simp add: racing_eq)
  have "0 < length (pending racing)" "error (ok 1) = None" "data (ok 1) = Some (1 # [])"
    by (simp_all add: racing_eq ok_def)
  note t = claim_notifies_then_removes[OF this]
  show ?thesis
    using t[THEN conjunct1] t[THEN conjunct2, THEN conjunct2, THEN conjunct1]
    unfolding p claimA_fields by simp
qed

text \<open>
  C5 as stated fails: the claim has the notifications sent only after the ledger entry
  is removed. In \<open>racing\<close>, when the insert of driver A resolves, the callback's effects
  are the two emissions and then the removal; after the first two, with both messages
  in the outbox, the ledger still holds the request.
\<close>

theorem notified_before_removed:
  "then_callback (pending racing ! 0) (ok 1) =
     [Emit (To_room ''userP'') (Ride_accepted ''userA'' origin),
      Emit (To_socket ''sockA'') (Ride_started 1),
      Requests_delete ''4fzyo82mv''] \<and>
   outbox (run (take 2 (then_callback (pending racing ! 0) (ok 1))) racing) =
     outbox racing @
     [(To_room ''userP'', Ride_accepted ''userA'' origin), (To_socket ''sockA'', Ride_started 1)] \<and>
   map_of (rideRequests (run (take 2 (then_callback (pending racing ! 0) (ok 1))) racing))
     ''4fzyo82mv'' = Some (new_request rider origin origin)"
proof -
  have p: "pending racing ! 0 = claimA" by (simp add: racing_eq)
  have as: "then_callback claimA (ok 1) =
     [Emit (To_room ''userP'') (Ride_accepted ''userA'' origin),
      Emit (To_socket ''sockA'') (Ride_started 1),
      Requests_delete ''4fzyo82mv'']"
    by (simp add: then_callback_def ok_def claimA_fields)
  have r: "rideRequests racing = [(''4fzyo82mv'', new_request rider origin origin)]"
    by (simp add: racing_eq waiting_eq)
  show ?thesis unfolding p as by (simp add: numeral_2_eq_2 r)
qed

subsection \<open>driver-location: one entry per connection\<close>

lemma distinct_perform:
  "distinct (map fst (activeDrivers s)) \<Longrightarrow> distinct (map fst (activeDrivers (perform a s)))"
  by (cases a) (simp_all add: distinct_update distinct_delete)

lemma distinct_run:
  "distinct (map fst (activeDrivers s)) \<Longrightarrow> distinct (map fst (activeDrivers (run as s)))"
proof (induction as arbitrary: s)
  case Nil
  then show ?case by simp
next
  case (Cons a as)
  show ?case
  proof (cases "a = Throw")
    case True
    with Cons.prems show ?thesis by simp
  next
    case False
    then have "run (a # as) s = run as (perform a s)" by (cases a) simp_all
    with Cons.IH[OF distinct_perform[OF Cons.prems]] show ?thesis by simp
  qed
qed

lemma distinct_step:
  "distinct (map fst (activeDrivers s)) \<Longrightarrow> distinct (map fst (activeDrivers (step ev s)))"
  by (cases ev) (simp_all add: distinct_run)

text \<open>Every state the server reaches has at most one entry per connection.\<close>

lemma distinct_exec: "distinct (map fst (activeDrivers (exec evs init)))"
proof (induction evs rule: rev_induct)
  case Nil
  show ?case by (simp add: exec_def init_def)
next
  case (snoc ev evs)
  then show ?case by (simp add: exec_snoc distinct_step)
qed

text \<open>
  Hence, in a state the server reaches, no connection is sent two messages by one
  \<^verbatim>\<open>request-ride\<close>.
\<close>

lemma broadcast_once:
  "distinct (map fst (emits (on_request_ride sock pickup' dropoff' requestId (exec evs init))))"
proof -
  have "distinct (map fst (filter (nearby pickup') (activeDrivers (exec evs init))))"
    using distinct_exec[of evs] by (rule distinct_map_filter)
  then have "distinct (map (\<lambda>e. To_room (fst e))
      (filter (nearby pickup') (activeDrivers (exec evs init))))"
    by (simp add: distinct_map inj_on_def comp_def)
  then show ?thesis
    by (auto simp: emits_on_request_ride comp_def)
qed

lemma filter_key_update:
  "distinct (map fst al) \<Longrightarrow> filter (\<lambda>e. fst e = k) (AList.update k v al) = [(k, v)]"
proof (induction al)
  case Nil
  then show ?case by simp
next
  case (Cons p ps)
  show ?case
  proof (cases "fst p = k")
    case True
    with Cons.prems have "k \<notin> fst ` set ps" by auto
    then have "filter (\<lambda>e. fst e = k) ps = []" by (auto simp: filter_empty_conv)
    with True show ?thesis by (cases p) simp
  next
    case False
    with Cons show ?thesis by (cases p) simp
  qed
qed

text \<open>
  C7, as amended. After any history of events, a \<^verbatim>\<open>driver-location\<close> report leaves
  exactly one entry for the reporting connection in \<^verbatim>\<open>activeDrivers\<close>, and that entry
  is the object \<^verbatim>\<open>{ driverId, lat, lng }\<close> of this report: the user of the socket and
  the reported position. No time is stored.
\<close>

theorem driver_location_single_entry:
  "filter (\<lambda>e. fst e = socket_id sock)
     (activeDrivers (exec (evs @ [Driver_location sock la lo]) init)) =
   [(socket_id sock, \<lparr>lat = la, lng = lo, driverId = user_id sock\<rparr>)]"
  using distinct_exec[of evs]
  by (simp add: exec_snoc on_driver_location_def filter_key_update)

theorem driver_location_single_entry_witness:
  "filter (\<lambda>e. fst e = ''sockA'')
     (activeDrivers (exec ([Driver_location driverA 0 0, Driver_location driverB 0 0,
        Driver_location driverA 5 6] @ [Driver_location driverA 1 2]) init)) =
   [(''sockA'', \<lparr>lat = 1, lng = 2, driverId = ''userA''\<rparr>)]"
  using driver_location_single_entry[of driverA
      "[Driver_location driverA 0 0, Driver_location driverB 0 0, Driver_location driverA 5 6]" 1 2]
  by (simp add: driverA_def)

text \<open>
  C7 as stated fails: the claim has every report stamp the entry with the current
  time. The entry stored is the three fields below and nothing else, and the same
  report arriving a second time, later, leaves the state exactly as it was.
\<close>

theorem driver_location_no_timestamp:
  "activeDrivers (step (Driver_location driverA 1 2) init) =
     [(''sockA'', \<lparr>lat = 1, lng = 2, driverId = ''userA''\<rparr>)] \<and>
   step (Driver_location driverA 1 2) (step (Driver_location driverA 1 2) init) =
     step (Driver_location driverA 1 2) init"
  by (simp add: on_driver_location_def init_def driverA_def)

subsection \<open>accept-ride: two accepts before the first insert resolves\<close>

text \<open>Handling an accept never removes the request: only the callback of the insert does.\<close>

lemma accept_ride_keeps_ledger:
  "rideRequests (step (Accept_ride sock requestId) s) = rideRequests s"
  by (simp add: on_accept_ride_def split: option.splits)

text \<open>
  C1 fails on the code. The request is removed from the ledger in the callback of the
  insert, not when the accept is handled, so a second \<^verbatim>\<open>accept-ride\<close> that arrives
  before the first insert has resolved finds the request still there. Below, drivers A
  and B accept the same request one after the other and then both inserts resolve:
  two rows have been inserted, and the passenger's room is sent \<^verbatim>\<open>ride-accepted\<close>
  twice, once for each driver, each of whom is sent \<^verbatim>\<open>ride-started\<close>.
\<close>

theorem accept_ride_double_claim:
  "inserted
     (exec [Driver_location driverA 0 0, Driver_location driverB 0 0,
            Request_ride rider origin origin ''4fzyo82mv'',
            Accept_ride driverA ''4fzyo82mv'', Accept_ride driverB ''4fzyo82mv'',
            Insert_done 0 (ok 1), Insert_done 0 (ok 2)] init) =
     [Ride ''userP'' ''userA'' origin origin fare0 ''accepted'',
      Ride ''userP'' ''userB'' origin origin fare0 ''accepted''] \<and>
   outbox
     (exec [Driver_location driverA 0 0, Driver_location driverB 0 0,
            Request_ride rider origin origin ''4fzyo82mv'',
            Accept_ride driverA ''4fzyo82mv'', Accept_ride driverB ''4fzyo82mv'',
            Insert_done 0 (ok 1), Insert_done 0 (ok 2)] init) =
     [(To_room ''sockA'', New_ride_request ''4fzyo82mv'' origin origin fare0),
      (To_room ''sockB'', New_ride_request ''4fzyo82mv'' origin origin fare0),
      (To_socket ''sockP'', Request_sent ''4fzyo82mv'' fare0),
      (To_room ''userP'', Ride_accepted ''userA'' origin),
      (To_socket ''sockA'', Ride_started 1),
      (To_room ''userP'', Ride_accepted ''userB'' origin),
      (To_socket ''sockB'', Ride_started 2)]"
proof -
  have e: "exec [Driver_location driverA 0 0, Driver_location driverB 0 0,
            Request_ride rider origin origin ''4fzyo82mv'',
            Accept_ride driverA ''4fzyo82mv'', Accept_ride driverB ''4fzyo82mv'',
            Insert_done 0 (ok 1), Insert_done 0 (ok 2)] init =
      step (Insert_done 0 (ok 2)) settled"
    by (simp add: exec_def settled_def racing_def waiting_def)
  have p: "pending settled = [claimB]" by (simp add: settled_eq)
  have as: "then_callback claimB (ok 2) =
     [Emit (To_room ''userP'') (Ride_accepted ''userB'' origin),
      Emit (To_socket ''sockB'') (Ride_started 2),
      Requests_delete ''4fzyo82mv'']"
    by (simp add: then_callback_def ok_def claimB_fields)
  show ?thesis
    unfolding e by (simp add: p as) (simp add: settled_eq racing_eq waiting_eq)
qed

text \<open>
  When the insert resolves without rows, \<^verbatim>\<open>data[0]\<close> throws after \<^verbatim>\<open>ride-accepted\<close>
  was emitted and the removal is never reached: the request stays in the ledger and a
  later accept succeeds again, with no overlap of the two at all.
\<close>

lemma accept_ride_no_rows_repeat:
  "inserted
     (exec [Accept_ride driverA ''4fzyo82mv'', Insert_done 0 no_rows,
            Accept_ride driverB ''4fzyo82mv'', Insert_done 0 no_rows] waiting) =
     [Ride ''userP'' ''userA'' origin origin fare0 ''accepted'',
      Ride ''userP'' ''userB'' origin origin fare0 ''accepted''] \<and>
   outbox
     (exec [Accept_ride driverA ''4fzyo82mv'', Insert_done 0 no_rows,
            Accept_ride driverB ''4fzyo82mv'', Insert_done 0 no_rows] waiting) =
     outbox waiting @
     [(To_room ''userP'', Ride_accepted ''userA'' origin),
      (To_room ''userP'', Ride_accepted ''userB'' origin)] \<and>
   rideRequests
     (exec [Accept_ride driverA ''4fzyo82mv'', Insert_done 0 no_rows,
            Accept_ride driverB ''4fzyo82mv'', Insert_done 0 no_rows] waiting) =
     rideRequests waiting"
proof -
  have 1: "step (Accept_ride driverA ''4fzyo82mv'') waiting =
      waiting\<lparr>inserted := [Ride ''userP'' ''userA'' origin origin fare0 ''accepted''],
        pending := [claimA]\<rparr>"
    by (simp add: waiting_eq on_accept_ride_def new_request_origin
        driverA_def rider_def claimA_def origin_def)
  have a: "then_callback claimA no_rows =
      [Emit (To_room ''userP'') (Ride_accepted ''userA'' origin), Throw]"
    by (simp add: then_callback_def no_rows_def claimA_fields)
  have b: "then_callback claimB no_rows =
      [Emit (To_room ''userP'') (Ride_accepted ''userB'' origin), Throw]"
    by (simp add: then_callback_def no_rows_def claimB_fields)
  have 2: "step (Insert_done 0 no_rows) (step (Accept_ride driverA ''4fzyo82mv'') waiting) =
      waiting\<lparr>inserted := [Ride ''userP'' ''userA'' origin origin fare0 ''accepted''],
        outbox := outbox waiting @ [(To_room ''userP'', Ride_accepted ''userA'' origin)]\<rparr>"
    unfolding 1 by (simp add: a) (simp add: waiting_eq)
  have 3: "step (Accept_ride driverB ''4fzyo82mv'')
       (step (Insert_done 0 no_rows) (step (Accept_ride driverA ''4fzyo82mv'') waiting)) =
      waiting\<lparr>inserted := [Ride ''userP'' ''userA'' origin origin fare0 ''accepted'',
          Ride ''userP'' ''userB'' origin origin fare0 ''accepted''],
        pending := [claimB],
        outbox := outbox waiting @ [(To_room ''userP'', Ride_accepted ''userA'' origin)]\<rparr>"
    unfolding 2 by (simp add: waiting_eq on_accept_ride_def new_request_origin
        driverB_def rider_def claimB_def origin_def)
  have e: "exec [Accept_ride driverA ''4fzyo82mv'', Insert_done 0 no_rows,
            Accept_ride driverB ''4fzyo82mv'', Insert_done 0 no_rows] waiting =
      step (Insert_done 0 no_rows)
        (step (Accept_ride driverB ''4fzyo82mv'')
          (step (Insert_done 0 no_rows) (step (Accept_ride driverA ''4fzyo82mv'') waiting)))"
    by (simp only: exec_def foldl_Cons foldl_Nil)
  show ?thesis
    unfolding e 3 by (simp add: b)
qed

subsection \<open>request-ride: the request id\<close>

text \<open>The store is unconditional: an entry already under the id is replaced.\<close>

lemma request_ride_sets_ledger:
  "rideRequests (step (Request_ride sock pickup' dropoff' requestId) s) =
     AList.update requestId (new_request sock pickup' dropoff') (rideRequests s)"
proof -
  have "list_all is_emit
     (map (\<lambda>e. Emit (To_room (fst e))
            (New_ride_request requestId pickup' dropoff' (quoted_fare pickup' dropoff')))
       (filter (nearby pickup') (activeDrivers s)) @
      [Emit (To_socket (socket_id sock)) (Request_sent requestId (quoted_fare pickup' dropoff'))])"
    by (simp add: list_all_iff)
  then show ?thesis
    by (simp add: on_request_ride_eq rideRequests_run_emits)
qed

text \<open>
  C6 fails on the code. The id is \<^verbatim>\<open>Math.random().toString(36).substr(2, 9)\<close> and
  nothing compares it with the ids in use. When the draw of a second request repeats
  the id of a request still in the ledger, \<^verbatim>\<open>rideRequests.set\<close> replaces that entry:
  below, both passengers are sent the same id, and the ledger holds the second
  passenger's request only.
\<close>

theorem request_ride_id_collision:
  "rideRequests
     (exec [Request_ride rider origin origin ''4fzyo82mv'',
            Request_ride rider2 origin origin ''4fzyo82mv''] init) =
     [(''4fzyo82mv'', new_request rider2 origin origin)] \<and>
   passengerId (new_request rider2 origin origin) = ''userQ'' \<and>
   outbox
     (exec [Request_ride rider origin origin ''4fzyo82mv'',
            Request_ride rider2 origin origin ''4fzyo82mv''] init) =
     [(To_socket ''sockP'', Request_sent ''4fzyo82mv'' fare0),
      (To_socket ''sockQ'', Request_sent ''4fzyo82mv'' fare0)]"
  by (simp add: exec_def init_def on_request_ride_eq quoted_fare_origin new_request_origin
      rider_def rider2_def origin_def)

end
